theory Spec2Isabelle
  imports Main "HOL-Library.Sublist"
begin

section \<open>Requests, responses and thrown values\<close>

text \<open>
  The platform's Request and Response are opaque to hono-base.ts. The model keeps the
  parts the dispatcher reads or rebuilds: the request method, the URL split into
  scheme, host, path and query string (the query string with its leading question
  mark, or empty), and for a response the status, the headers and the body
  (\<open>None\<close> is the null body). A response built by the Response constructor has a
  status from 200 to 599; a network-error or opaque response has the status 0.
\<close>

record Request =
  req_method :: string
  url_scheme :: string
  url_host :: string
  url_path :: string
  url_query :: string

record Response =
  status :: nat
  headers :: "(string \<times> string) list"
  body :: "string option"

text \<open>
  Modelled from the spec: HTTPException of ./http-exception is not among the sources;
  the spec has it as the recognized application-level exception that carries a
  pre-built response. An Error is a plain Error or an HTTPException, and both keep
  the message.
\<close>

datatype Error = Error string | HTTPException string Response

text \<open>A thrown JavaScript value either is an instance of Error or is not.\<close>

datatype thrown = ErrorValue Error | NonError string

text \<open>
  Modelled from the spec: \<open>err instanceof HTTPException\<close>, and
  \<open>err.getResponse()\<close>, which only an HTTPException has and which returns the
  response it carries.
\<close>

fun instanceof_HTTPException :: "Error \<Rightarrow> bool" where
  "instanceof_HTTPException (HTTPException m r) = True"
| "instanceof_HTTPException (Error m) = False"

fun getResponse :: "Error \<Rightarrow> Response" where
  "getResponse (HTTPException m r) = r"

text \<open>
  \<open>new Response(null, init)\<close> where \<open>init\<close> is itself a response: the status
  and the headers are read from \<open>init\<close> and the body is null. The constructor
  throws a RangeError, which is an Error, when the status is not from 200 to 599.
\<close>

definition RangeError :: thrown where
  "RangeError = ErrorValue (Error ''RangeError: the status must be in the range of 200 to 599'')"

definition new_Response_null :: "Response \<Rightarrow> thrown + Response" where
  "new_Response_null init =
     (if 200 \<le> status init \<and> status init \<le> 599
      then Inr \<lparr>status = status init, headers = headers init, body = None\<rparr>
      else Inl RangeError)"

section \<open>The request context\<close>

text \<open>
  Modelled from the spec: the Context class of ./context is not among the sources. The
  spec gives it the incoming request, the environment bindings, an execution-context
  handle, a mutable response slot and a finalized flag, with the invariant that a
  finalized context holds a complete response. The model keeps the slot as an option
  and reads \<open>finalized\<close> off it, so the invariant holds by construction; assigning
  \<open>c.res\<close> fills the slot. \<open>c_req_path\<close> is \<open>c.req.path\<close>, the path the
  dispatcher extracted, and \<open>c_req_raw\<close> is \<open>c.req.raw\<close>. The match result that
  HonoRequest also receives is left out: nothing in hono-base.ts reads it back.
\<close>

record Context =
  c_req_raw :: Request
  c_req_path :: string
  c_env :: string
  c_executionCtx :: "string option"
  c_res :: "Response option"

definition new_Context :: "Request \<Rightarrow> string \<Rightarrow> string \<Rightarrow> string option \<Rightarrow> Context" where
  "new_Context request path env executionCtx =
     \<lparr>c_req_raw = request, c_req_path = path, c_env = env,
      c_executionCtx = executionCtx, c_res = None\<rparr>"

definition finalized :: "Context \<Rightarrow> bool" where
  "finalized c = (c_res c \<noteq> None)"

definition set_res :: "Context \<Rightarrow> Response \<Rightarrow> Context" where
  "set_res c r = c\<lparr>c_res := Some r\<rparr>"

text \<open>
  Modelled from the spec: \<open>c.text(body, status)\<close> of ./context, a plain-text
  response with the given status.
\<close>

definition c_text :: "Context \<Rightarrow> string \<Rightarrow> nat \<Rightarrow> Response" where
  "c_text c t st =
     \<lparr>status = st, headers = [(''content-type'', ''text/plain; charset=UTF-8'')], body = Some t\<rparr>"

section \<open>Handlers\<close>

text \<open>
  A handler is called with the context and a continuation \<open>next\<close>. What it does is
  recorded as a tree: it finishes with an outcome and the context as it left it, or it
  calls \<open>next()\<close> on the context as it stands and goes on from what \<open>next()\<close>
  gave back (a rejection or nothing, and the context as the rest of the chain left
  it). A promise is awaited where it is created, so a run is sequential.

  The four outcomes are the ones dispatch tells apart: a synchronous throw, a
  synchronous Response (dispatch returns \<open>Response | Promise<Response>\<close>, so a value
  that is not a promise is a Response), a promise resolved with a Response or with
  nothing, and a rejected promise.
\<close>

datatype outcome =
    Throws thrown
  | Returns Response
  | Resolves "Response option"
  | Rejects thrown

datatype exec =
    Done outcome Context
  | CallNext Context "thrown option \<Rightarrow> Context \<Rightarrow> exec"

text \<open>
  A handler function, with the property \<open>COMPOSED_HANDLER\<close> that route() sets on
  the wrappers it builds (absent on every other function).
\<close>

datatype H = H "Context \<Rightarrow> exec" "H option"

fun call :: "H \<Rightarrow> Context \<Rightarrow> exec" where
  "call (H f orig) c = f c"

fun COMPOSED_HANDLER :: "H \<Rightarrow> H option" where
  "COMPOSED_HANDLER (H f orig) = orig"

text \<open>
  The two module-level defaults of hono-base.ts (lines 37 to 47). console.error only
  logs.
\<close>

definition notFoundHandler :: "Context \<Rightarrow> Response" where
  "notFoundHandler c = c_text c ''404 Not Found'' 404"

definition errorHandler :: "Error \<Rightarrow> Context \<Rightarrow> Response" where
  "errorHandler err c =
     (if instanceof_HTTPException err then getResponse err
      else c_text c ''Internal Server Error'' 500)"

text \<open>
  The fields \<open>this.notFoundHandler\<close> and \<open>this.errorHandler\<close> hold either the
  module's default function or one installed by notFound() or onError(). route()
  compares \<open>app.errorHandler === errorHandler\<close> by reference, and the default is not
  exported, so an installed handler is never that reference: the two cases are two
  constructors. Both contracts return a Response.
\<close>

datatype NotFoundHandler = notFoundHandler_ref | custom_notFoundHandler "Context \<Rightarrow> Response"

datatype ErrorHandler = errorHandler_ref | custom_errorHandler "Error \<Rightarrow> Context \<Rightarrow> Response"

fun call_notFoundHandler :: "NotFoundHandler \<Rightarrow> Context \<Rightarrow> Response" where
  "call_notFoundHandler notFoundHandler_ref = notFoundHandler"
| "call_notFoundHandler (custom_notFoundHandler f) = f"

fun call_errorHandler :: "ErrorHandler \<Rightarrow> Error \<Rightarrow> Context \<Rightarrow> Response" where
  "call_errorHandler errorHandler_ref = errorHandler"
| "call_errorHandler (custom_errorHandler f) = f"

section \<open>The composition engine\<close>

text \<open>
  Modelled from the spec: compose of ./compose is not among the sources. The spec's
  engine runs the handlers in array order; \<open>next()\<close> from handler \<open>i\<close> runs
  handler \<open>i + 1\<close>, and from the last handler it runs the not-found handler and
  assigns its result to the response if that is still unset; a second \<open>next()\<close> from
  the same step is guarded against and fails; a response a handler returns fills the
  slot unless the context is already finalized (an outer layer never overwrites a
  finalized response); an Error that comes out of the chain is caught at the top
  level and the error handler's result is assigned to the response. A thrown value
  that is not an Error is not intercepted (the spec's NonErrorThrow).

  \<open>run_chain\<close> runs one handler's tree with the rest of the chain as its
  \<open>next\<close>; the integer is the engine's record of the last step entered.
\<close>

primrec run_chain ::
  "(Context \<Rightarrow> int \<Rightarrow> thrown option \<times> Context \<times> int) \<Rightarrow> exec \<Rightarrow> int \<Rightarrow> outcome \<times> Context \<times> int" where
  "run_chain nxt (Done r c) idx = (r, c, idx)"
| "run_chain nxt (CallNext c k) idx =
     (case nxt c idx of (e, c', idx') \<Rightarrow> run_chain nxt (k e c') idx')"

text \<open>
  Modelled from the spec: what the engine does with a response a handler returned (the
  slot of a finalized context is left alone), and one step of the engine,
  \<open>dispatch(i)\<close>, on the handlers from \<open>i\<close> on.
\<close>

definition keep_or_set :: "Context \<Rightarrow> Response \<Rightarrow> Context" where
  "keep_or_set c r = (if finalized c then c else set_res c r)"

primrec compose_dispatch ::
  "(Context \<Rightarrow> Response) \<Rightarrow> H list \<Rightarrow> nat \<Rightarrow> Context \<Rightarrow> int \<Rightarrow> thrown option \<times> Context \<times> int" where
  "compose_dispatch onNotFound [] i c idx =
     (if int i \<le> idx then (Some (ErrorValue (Error ''next() called multiple times'')), c, idx)
      else if finalized c then (None, c, int i)
      else (None, set_res c (onNotFound c), int i))"
| "compose_dispatch onNotFound (h # hs) i c idx =
     (if int i \<le> idx then (Some (ErrorValue (Error ''next() called multiple times'')), c, idx)
      else case run_chain (compose_dispatch onNotFound hs (Suc i)) (call h c) (int i) of
             (Throws err, c', idx') \<Rightarrow> (Some err, c', idx')
           | (Rejects err, c', idx') \<Rightarrow> (Some err, c', idx')
           | (Returns r, c', idx') \<Rightarrow> (None, keep_or_set c' r, idx')
           | (Resolves None, c', idx') \<Rightarrow> (None, c', idx')
           | (Resolves (Some r), c', idx') \<Rightarrow> (None, keep_or_set c' r, idx'))"

text \<open>
  Modelled from the spec: the engine as dispatch calls it, with the handlers, the
  error handler and the not-found handler. It gives back the context, or the thrown
  value that is not an Error.
\<close>

definition compose ::
  "H list \<Rightarrow> (Error \<Rightarrow> Context \<Rightarrow> Response) \<Rightarrow> (Context \<Rightarrow> Response) \<Rightarrow> Context
     \<Rightarrow> thrown option \<times> Context" where
  "compose middleware onError onNotFound c =
     (case compose_dispatch onNotFound middleware 0 c (- 1) of
        (None, c', idx) \<Rightarrow> (None, c')
      | (Some (ErrorValue err), c', idx) \<Rightarrow> (None, set_res c' (onError err c'))
      | (Some (NonError v), c', idx) \<Rightarrow> (Some (NonError v), c'))"

text \<open>
  Modelled from the spec: the second shape in which route() calls the engine,
  \<open>compose([], app.errorHandler)(c, () => r.handler(c, next))\<close>, an empty list whose
  continuation is the original handler run with the parent's \<open>next\<close>. The calls of
  \<open>next\<close> stay those of the original handler; where it finishes, an Error is
  replaced by the sub-application's error response, a returned response fills the
  slot of an unfinalized context, and the wrapper resolves with the context's
  response (\<open>.res\<close> of the context the engine gives back). \<open>intercept\<close> is
  what the engine makes of the outcome the original handler ends with.
\<close>

definition intercept :: "(Error \<Rightarrow> Context \<Rightarrow> Response) \<Rightarrow> outcome \<Rightarrow> Context \<Rightarrow> outcome \<times> Context" where
  "intercept onError r c =
     (case r of
        Throws (ErrorValue err) \<Rightarrow> (Resolves (Some (onError err c)), set_res c (onError err c))
      | Throws (NonError v) \<Rightarrow> (Rejects (NonError v), c)
      | Rejects (ErrorValue err) \<Rightarrow> (Resolves (Some (onError err c)), set_res c (onError err c))
      | Rejects (NonError v) \<Rightarrow> (Rejects (NonError v), c)
      | Returns x \<Rightarrow> (Resolves (c_res (keep_or_set c x)), keep_or_set c x)
      | Resolves None \<Rightarrow> (Resolves (c_res c), c)
      | Resolves (Some x) \<Rightarrow> (Resolves (c_res (keep_or_set c x)), keep_or_set c x))"

primrec compose_around :: "(Error \<Rightarrow> Context \<Rightarrow> Response) \<Rightarrow> exec \<Rightarrow> exec" where
  "compose_around onError (Done r c) = (case intercept onError r c of (r', c') \<Rightarrow> Done r' c')"
| "compose_around onError (CallNext c k) = CallNext c (\<lambda>e c'. compose_around onError (k e c'))"

section \<open>Paths\<close>

text \<open>
  Modelled from the spec: mergePath of ./utils/url is not among the sources. The spec's
  Path Builder joins a base and a sub path so that the seam never holds a double
  slash, keeps a directory-like trailing slash, and appends the wildcard \<open>*\<close> as a
  last segment. The model gives each argument its leading slash, leaves the base as
  it is when the sub path is the bare slash, and otherwise drops one trailing slash of
  the base before appending the sub path.
\<close>

definition lead_slash :: "string \<Rightarrow> string" where
  "lead_slash p = (case p of [] \<Rightarrow> ''/'' | x # xs \<Rightarrow> if x = CHR ''/'' then p else CHR ''/'' # p)"

definition drop_slash :: "string \<Rightarrow> string" where
  "drop_slash p = (if p \<noteq> [] \<and> last p = CHR ''/'' then butlast p else p)"

definition mergePath :: "string \<Rightarrow> string \<Rightarrow> string" where
  "mergePath base sub =
     (if lead_slash sub = ''/'' then lead_slash base
      else drop_slash (lead_slash base) @ lead_slash sub)"

text \<open>
  Modelled from the spec: the two default path extractors of ./utils/url. The strict
  one returns the URL's path; the non-strict one collapses \<open>/foo/\<close> to \<open>/foo\<close>.
  getQueryStrings returns the query string of the URL, question mark included, or the
  empty string.
\<close>

definition getPath :: "Request \<Rightarrow> string \<Rightarrow> string" where
  "getPath request env = url_path request"

definition getPathNoStrict :: "Request \<Rightarrow> string \<Rightarrow> string" where
  "getPathNoStrict request env =
     (let result = getPath request env
      in if length result > 1 \<and> last result = CHR ''/'' then butlast result else result)"

definition getQueryStrings :: "Request \<Rightarrow> string" where
  "getQueryStrings request = url_query request"

text \<open>
  The field \<open>this.getPath\<close> holds one of the two defaults or a function the
  options supplied (which also sees the environment bindings).
\<close>

datatype GetPath = getPath_ref | getPathNoStrict_ref | custom_getPath "Request \<Rightarrow> string \<Rightarrow> string"

fun call_getPath :: "GetPath \<Rightarrow> Request \<Rightarrow> string \<Rightarrow> string" where
  "call_getPath getPath_ref = getPath"
| "call_getPath getPathNoStrict_ref = getPathNoStrict"
| "call_getPath (custom_getPath f) = f"

text \<open>\<open>String.prototype.toUpperCase\<close> on the ASCII letters, which is what method names
  are made of.\<close>

definition upper_char :: "char \<Rightarrow> char" where
  "upper_char ch =
     (case map_of (zip ''abcdefghijklmnopqrstuvwxyz'' ''ABCDEFGHIJKLMNOPQRSTUVWXYZ'') ch of
        Some u \<Rightarrow> u
      | None \<Rightarrow> ch)"

definition toUpperCase :: "string \<Rightarrow> string" where
  "toUpperCase m = map upper_char m"

text \<open>
  Modelled from the spec: \<open>METHOD_NAME_ALL\<close> of ./router is not among the sources.
  It is the method name under which a route is registered for all methods.
\<close>

definition METHOD_NAME_ALL :: string where
  "METHOD_NAME_ALL = ''ALL''"

section \<open>Routes, routers and the store\<close>

text \<open>
  A route record as addRoute builds it. The router is the external contract: the model
  keeps the calls of \<open>add\<close> in order, and each router object brings its own \<open>match\<close>
  as a function of what was added. A match result is the list \<open>matchResult[0]\<close> of
  the source: pairs of a payload \<open>[handler, route]\<close> and the extracted parameters.
\<close>

record RouterRoute =
  r_path :: string
  r_method :: string
  r_handler :: H

type_synonym payload = "H \<times> RouterRoute"

type_synonym matched = "(payload \<times> (string \<times> string) list) list"

record Router =
  added :: "(string \<times> string \<times> payload) list"
  match_of :: "(string \<times> string \<times> payload) list \<Rightarrow> string \<Rightarrow> string \<Rightarrow> matched"

definition router_add :: "Router \<Rightarrow> string \<Rightarrow> string \<Rightarrow> payload \<Rightarrow> Router" where
  "router_add r m p x = r\<lparr>added := added r @ [(m, p, x)]\<rparr>"

definition router_match :: "Router \<Rightarrow> string \<Rightarrow> string \<Rightarrow> matched" where
  "router_match r m p = match_of r (added r) m p"

text \<open>
  Applications share their router and their routes array by reference (clone() copies
  the references), so both live in a store: arrays and routers by address, and the
  next free array address for \<open>routes = []\<close> in the constructor.
\<close>

record store =
  arrays :: "nat \<Rightarrow> RouterRoute list"
  routers :: "nat \<Rightarrow> Router"
  next_array :: nat

text \<open>
  The fields of a Hono object: \<open>this_basePath\<close> is \<open>_basePath\<close> and
  \<open>this_path\<close> is the private \<open>#path\<close>. HonoBase is abstract (source lines 105
  to 108): the inheriting class installs the router, so the options of the model
  always name one.
\<close>

record Hono =
  this_router :: nat
  this_getPath :: GetPath
  this_basePath :: string
  this_path :: string
  this_routes :: nat
  this_notFoundHandler :: NotFoundHandler
  this_errorHandler :: ErrorHandler

record HonoOptions =
  opt_strict :: "bool option"
  opt_router :: nat
  opt_getPath :: "GetPath option"

definition new_Hono :: "HonoOptions \<Rightarrow> store \<Rightarrow> Hono \<times> store" where
  "new_Hono options s =
     (let strict = (case opt_strict options of None \<Rightarrow> True | Some b \<Rightarrow> b)
      in (\<lparr>this_router = opt_router options,
           this_getPath =
             (if strict then (case opt_getPath options of None \<Rightarrow> getPath_ref | Some g \<Rightarrow> g)
              else getPathNoStrict_ref),
           this_basePath = ''/'',
           this_path = ''/'',
           this_routes = next_array s,
           this_notFoundHandler = notFoundHandler_ref,
           this_errorHandler = errorHandler_ref\<rparr>,
          s\<lparr>arrays := (arrays s)(next_array s := []), next_array := Suc (next_array s)\<rparr>))"

definition clone :: "Hono \<Rightarrow> store \<Rightarrow> Hono \<times> store" where
  "clone this s =
     (case new_Hono \<lparr>opt_strict = None, opt_router = this_router this,
                     opt_getPath = Some (this_getPath this)\<rparr> s of
        (c, s') \<Rightarrow> (c\<lparr>this_routes := this_routes this\<rparr>, s'))"

definition basePath :: "Hono \<Rightarrow> string \<Rightarrow> store \<Rightarrow> Hono \<times> store" where
  "basePath this path s =
     (case clone this s of
        (subApp, s') \<Rightarrow> (subApp\<lparr>this_basePath := mergePath (this_basePath this) path\<rparr>, s'))"

definition onError :: "Hono \<Rightarrow> (Error \<Rightarrow> Context \<Rightarrow> Response) \<Rightarrow> Hono" where
  "onError this handler = this\<lparr>this_errorHandler := custom_errorHandler handler\<rparr>"

definition notFound :: "Hono \<Rightarrow> (Context \<Rightarrow> Response) \<Rightarrow> Hono" where
  "notFound this handler = this\<lparr>this_notFoundHandler := custom_notFoundHandler handler\<rparr>"

definition addRoute :: "Hono \<Rightarrow> string \<Rightarrow> string \<Rightarrow> H \<Rightarrow> store \<Rightarrow> store" where
  "addRoute this method0 path0 handler s =
     (let method = toUpperCase method0;
          path = mergePath (this_basePath this) path0;
          r = \<lparr>r_path = path, r_method = method, r_handler = handler\<rparr>;
          s1 = s\<lparr>routers := (routers s)(this_router this :=
                  router_add (routers s (this_router this)) method path (handler, r))\<rparr>
      in s1\<lparr>arrays := (arrays s1)(this_routes this := arrays s1 (this_routes this) @ [r])\<rparr>)"

definition matchRoute :: "store \<Rightarrow> Hono \<Rightarrow> string \<Rightarrow> string \<Rightarrow> matched" where
  "matchRoute s this method path = router_match (routers s (this_router this)) method path"

section \<open>Dispatch\<close>

definition handleError :: "Hono \<Rightarrow> thrown \<Rightarrow> Context \<Rightarrow> thrown + Response" where
  "handleError this err c =
     (case err of
        ErrorValue e \<Rightarrow> Inr (call_errorHandler (this_errorHandler this) e c)
      | NonError v \<Rightarrow> Inl err)"

text \<open>
  The single-handler path (source lines 390 to 409). Its \<open>next\<close> assigns the
  not-found handler's response to \<open>c.res\<close>. \<open>Inl\<close> is a value thrown out of
  dispatch, or the rejection of the promise it returns.
\<close>

primrec run_single :: "(Context \<Rightarrow> Response) \<Rightarrow> exec \<Rightarrow> outcome \<times> Context" where
  "run_single nf (Done r c) = (r, c)"
| "run_single nf (CallNext c k) = run_single nf (k None (set_res c (nf c)))"

definition dispatch_single :: "Hono \<Rightarrow> H \<Rightarrow> Context \<Rightarrow> thrown + Response" where
  "dispatch_single this h c =
     (case run_single (call_notFoundHandler (this_notFoundHandler this)) (call h c) of
        (Throws err, c') \<Rightarrow> handleError this err c'
      | (Returns r, c') \<Rightarrow> Inr r
      | (Resolves (Some resolved), c') \<Rightarrow> Inr resolved
      | (Resolves None, c') \<Rightarrow>
          (if finalized c' then Inr (the (c_res c'))
           else Inr (call_notFoundHandler (this_notFoundHandler this) c'))
      | (Rejects err, c') \<Rightarrow> handleError this err c')"

text \<open>The composed path (source lines 411 to 426).\<close>

definition not_finalized_message :: string where
  "not_finalized_message =
     ''Context is not finalized. You may forget returning Response object or `await next()`''"

definition dispatch_composed :: "Hono \<Rightarrow> matched \<Rightarrow> Context \<Rightarrow> thrown + Response" where
  "dispatch_composed this matchResult c =
     (case compose (map (\<lambda>m. fst (fst m)) matchResult)
             (call_errorHandler (this_errorHandler this))
             (call_notFoundHandler (this_notFoundHandler this)) c of
        (Some err, context) \<Rightarrow> handleError this err context
      | (None, context) \<Rightarrow>
          (if \<not> finalized context
           then handleError this (ErrorValue (Error not_finalized_message)) context
           else Inr (the (c_res context))))"

function dispatch ::
  "store \<Rightarrow> Hono \<Rightarrow> Request \<Rightarrow> string option \<Rightarrow> string \<Rightarrow> string \<Rightarrow> thrown + Response" where
  "dispatch s this request executionCtx env method =
     (if method = ''HEAD'' then
        (case dispatch s this request executionCtx env ''GET'' of
           Inl err \<Rightarrow> Inl err
         | Inr r \<Rightarrow> new_Response_null r)
      else
        (let path = call_getPath (this_getPath this) request env;
             matchResult = matchRoute s this method path;
             c = new_Context request path env executionCtx
         in if length matchResult = 1
            then dispatch_single this (fst (fst (matchResult ! 0))) c
            else dispatch_composed this matchResult c))"
  by pat_completeness auto
termination
  by (relation "measure (\<lambda>(s, this, request, executionCtx, env, method).
        if method = ''HEAD'' then 1 else 0)") auto

declare dispatch.simps [simp del]

definition fetch :: "store \<Rightarrow> Hono \<Rightarrow> Request \<Rightarrow> string \<Rightarrow> string option \<Rightarrow> thrown + Response" where
  "fetch s this request Env executionCtx = dispatch s this request executionCtx Env (req_method request)"

section \<open>Registration and application composition\<close>

text \<open>
  route() (source lines 202 to 230). The callback of \<open>app.routes.map\<close> runs once
  for each element the array held when map was called, also when the array grows
  meanwhile (\<open>app\<close> may share its array with \<open>this\<close>).
\<close>

definition route_handler :: "Hono \<Rightarrow> RouterRoute \<Rightarrow> H" where
  "route_handler app r =
     (case this_errorHandler app of
        errorHandler_ref \<Rightarrow> r_handler r
      | custom_errorHandler f \<Rightarrow>
          H (\<lambda>c. compose_around (call_errorHandler (this_errorHandler app)) (call (r_handler r) c))
            (Some (r_handler r)))"

definition route :: "Hono \<Rightarrow> string \<Rightarrow> Hono option \<Rightarrow> store \<Rightarrow> Hono \<times> store" where
  "route this path app s =
     (case basePath this path s of
        (subApp, s') \<Rightarrow>
          (case app of
             None \<Rightarrow> (subApp, s')
           | Some a \<Rightarrow>
               (this, fold (\<lambda>r st. addRoute subApp (r_method r) (r_path r) (route_handler a r) st)
                        (arrays s' (this_routes a)) s')))"

text \<open>
  mount() (source lines 315 to 348). The values handed on to the foreign handler are
  opaque; \<open>jsval\<close> keeps what the code inspects (\<open>Array.isArray\<close>).

  \<open>new URL(input, base)\<close> of the platform resolves the reference \<open>input\<close>
  against the base URL. The reference is split at its first question mark. A path
  that starts with one slash replaces the path of the base; a path that starts with
  two slashes names a host of its own, up to the next slash; a path that does not
  start with a slash is appended to the base path up to its last slash. A reference
  with a path takes its query string from the reference alone. The references met
  here are taken to hold no scheme, backslash, dot segment, fragment or character
  that the parser strips or encodes. The rebuilt request is the raw request with the
  resolved URL.
\<close>

datatype jsval = Undefined | EnvValue string | ExecutionContextValue string | Array "jsval list" | Other string

definition base_directory :: "string \<Rightarrow> string" where
  "base_directory p = rev (dropWhile (\<lambda>ch. ch \<noteq> CHR ''/'') (rev p))"

definition new_URL :: "string \<Rightarrow> Request \<Rightarrow> Request" where
  "new_URL input base =
     (let p = takeWhile (\<lambda>ch. ch \<noteq> CHR ''?'') input;
          q = dropWhile (\<lambda>ch. ch \<noteq> CHR ''?'') input
      in case p of
           [] \<Rightarrow> base\<lparr>url_query := (if q = [] then url_query base else q)\<rparr>
         | x # xs \<Rightarrow>
             if x \<noteq> CHR ''/''
             then base\<lparr>url_path := base_directory (url_path base) @ p, url_query := q\<rparr>
             else (case xs of
                     [] \<Rightarrow> base\<lparr>url_path := p, url_query := q\<rparr>
                   | y # ys \<Rightarrow>
                       if y = CHR ''/''
                       then base\<lparr>url_host := takeWhile (\<lambda>ch. ch \<noteq> CHR ''/'') ys,
                                 url_path :=
                                   (let r = dropWhile (\<lambda>ch. ch \<noteq> CHR ''/'') ys
                                    in if r = [] then ''/'' else r),
                                 url_query := q\<rparr>
                       else base\<lparr>url_path := p, url_query := q\<rparr>))"

definition mount_handler ::
  "nat \<Rightarrow> (Request \<Rightarrow> jsval list \<Rightarrow> thrown + Response option) \<Rightarrow> (Context \<Rightarrow> thrown + jsval) option
     \<Rightarrow> Context \<Rightarrow> exec" where
  "mount_handler pathPrefixLength applicationHandler optionHandler c =
     (let executionContext =
            (case c_executionCtx c of None \<Rightarrow> Undefined | Some e \<Rightarrow> ExecutionContextValue e)
      in case (case optionHandler of
                 Some f \<Rightarrow> f c
               | None \<Rightarrow> Inr (Array [EnvValue (c_env c), executionContext])) of
           Inl err \<Rightarrow> Done (Rejects err) c
         | Inr options \<Rightarrow>
             (let optionsArray = (case options of Array xs \<Rightarrow> xs | _ \<Rightarrow> [options]);
                  queryStrings = getQueryStrings (c_req_raw c);
                  sliced = drop pathPrefixLength (c_req_path c)
              in case applicationHandler
                        (new_URL ((if sliced = [] then ''/'' else sliced) @ queryStrings) (c_req_raw c))
                        optionsArray of
                   Inl err \<Rightarrow> Done (Rejects err) c
                 | Inr (Some res) \<Rightarrow> Done (Resolves (Some res)) c
                 | Inr None \<Rightarrow>
                     CallNext c (\<lambda>e c'. case e of
                                           Some err \<Rightarrow> Done (Rejects err) c'
                                         | None \<Rightarrow> Done (Resolves None) c')))"

definition mount ::
  "Hono \<Rightarrow> string \<Rightarrow> (Request \<Rightarrow> jsval list \<Rightarrow> thrown + Response option)
     \<Rightarrow> (Context \<Rightarrow> thrown + jsval) option \<Rightarrow> store \<Rightarrow> Hono \<times> store" where
  "mount this path applicationHandler optionHandler s =
     (let mergedPath = mergePath (this_basePath this) path;
          pathPrefixLength = (if mergedPath = ''/'' then 0 else length mergedPath);
          handler = H (mount_handler pathPrefixLength applicationHandler optionHandler) None
      in (this, addRoute this METHOD_NAME_ALL (mergePath path ''*'') handler s))"

text \<open>
  The registration functions the constructor installs (source lines 118 to 164). An
  argument is a path string or a handler; \<open>on\<close> takes one method or an array of
  methods, and one path or an array of paths.
\<close>

datatype arg = PathArg string | HandlerArg H

datatype 'a one_or_many = One 'a | Many "'a list"

fun flat :: "'a one_or_many \<Rightarrow> 'a list" where
  "flat (One x) = [x]"
| "flat (Many xs) = xs"

definition verb_rest :: "string \<Rightarrow> arg \<Rightarrow> Hono \<times> store \<Rightarrow> Hono \<times> store" where
  "verb_rest method handler st =
     (case handler of
        PathArg p \<Rightarrow> st
      | HandlerArg h \<Rightarrow> (fst st, addRoute (fst st) method (this_path (fst st)) h (snd st)))"

definition verb :: "Hono \<Rightarrow> string \<Rightarrow> arg \<Rightarrow> arg list \<Rightarrow> store \<Rightarrow> Hono \<times> store" where
  "verb this method args1 args s =
     fold (verb_rest method) args
       (case args1 of
          PathArg p \<Rightarrow> (this\<lparr>this_path := p\<rparr>, s)
        | HandlerArg h \<Rightarrow> (this, addRoute this method (this_path this) h s))"

definition on_methods :: "Hono \<Rightarrow> string list \<Rightarrow> H list \<Rightarrow> store \<Rightarrow> store" where
  "on_methods this ms handlers s =
     fold (\<lambda>m st. fold (\<lambda>handler st'. addRoute this (toUpperCase m) (this_path this) handler st')
                     handlers st) ms s"

definition on :: "Hono \<Rightarrow> string one_or_many \<Rightarrow> string one_or_many \<Rightarrow> H list \<Rightarrow> store \<Rightarrow> Hono \<times> store" where
  "on this method path handlers s =
     (if method = One [] then (this, s)
      else fold (\<lambda>p st. (fst st\<lparr>this_path := p\<rparr>,
                          on_methods (fst st\<lparr>this_path := p\<rparr>) (flat method) handlers (snd st)))
             (flat path) (this, s))"

definition use :: "Hono \<Rightarrow> arg \<Rightarrow> H list \<Rightarrow> store \<Rightarrow> Hono \<times> store" where
  "use this arg1 handlers s =
     (let this' = (case arg1 of PathArg p \<Rightarrow> this\<lparr>this_path := p\<rparr>
                              | HandlerArg h \<Rightarrow> this\<lparr>this_path := ''*''\<rparr>);
          handlers' = (case arg1 of PathArg p \<Rightarrow> handlers | HandlerArg h \<Rightarrow> h # handlers)
      in (this', fold (\<lambda>handler st. addRoute this' METHOD_NAME_ALL (this_path this') handler st)
                   handlers' s))"

section \<open>Sequences of operations\<close>

text \<open>
  The operations of an application that can touch the store, as data, so that a
  property can be stated of every sequence of them, each applied to an application of
  its own. dispatch and fetch only read the store.
\<close>

datatype operation =
    AddRoute string string H
  | Route string "Hono option"
  | BasePath string
  | OnError "Error \<Rightarrow> Context \<Rightarrow> Response"
  | NotFound "Context \<Rightarrow> Response"
  | Mount string "Request \<Rightarrow> jsval list \<Rightarrow> thrown + Response option" "(Context \<Rightarrow> thrown + jsval) option"
  | Verb string arg "arg list"
  | On "string one_or_many" "string one_or_many" "H list"
  | Use arg "H list"

fun perform :: "operation \<Rightarrow> Hono \<Rightarrow> store \<Rightarrow> Hono \<times> store" where
  "perform (AddRoute m p h) this s = (this, addRoute this m p h s)"
| "perform (Route p app) this s = route this p app s"
| "perform (BasePath p) this s = basePath this p s"
| "perform (OnError f) this s = (onError this f, s)"
| "perform (NotFound f) this s = (notFound this f, s)"
| "perform (Mount p f g) this s = mount this p f g s"
| "perform (Verb m a as) this s = verb this m a as s"
| "perform (On m p hs) this s = on this m p hs s"
| "perform (Use a hs) this s = use this a hs s"

fun perform_all :: "(Hono \<times> operation) list \<Rightarrow> store \<Rightarrow> store" where
  "perform_all [] s = s"
| "perform_all ((this, x) # xs) s = perform_all xs (snd (perform x this s))"

text \<open>
  One store grows into another when no array address is given back and every array
  already allocated is a prefix of what it has become: entries are only appended.
\<close>

definition grows :: "store \<Rightarrow> store \<Rightarrow> bool" where
  "grows s s' = (next_array s \<le> next_array s' \<and> (\<forall>a<next_array s. prefix (arrays s a) (arrays s' a)))"

section \<open>Sample values\<close>

text \<open>
  A small router for the examples: it matches the entries registered under the
  request's method or under ALL whose pattern is the request's path, or ends in
  \<open>/*\<close> and has the rest as a prefix of the request's path at a segment
  boundary, in registration order.
\<close>

definition wildcard_match :: "string \<Rightarrow> string \<Rightarrow> bool" where
  "wildcard_match pat p =
     (if 2 \<le> length pat \<and> drop (length pat - 2) pat = ''/*''
      then (let base = take (length pat - 2) pat
            in p = base \<or> take (length base + 1) p = base @ ''/'')
      else pat = p)"

definition sample_match :: "(string \<times> string \<times> payload) list \<Rightarrow> string \<Rightarrow> string \<Rightarrow> matched" where
  "sample_match entries m p =
     map (\<lambda>e. (snd (snd e), []))
       (filter (\<lambda>e. (fst e = m \<or> fst e = METHOD_NAME_ALL) \<and> wildcard_match (fst (snd e)) p) entries)"

definition sample_store :: store where
  "sample_store =
     \<lparr>arrays = (\<lambda>a. []), routers = (\<lambda>a. \<lparr>added = [], match_of = sample_match\<rparr>), next_array = 0\<rparr>"

definition sample_app :: Hono where
  "sample_app = fst (new_Hono \<lparr>opt_strict = None, opt_router = 0, opt_getPath = None\<rparr> sample_store)"

definition sample_store1 :: store where
  "sample_store1 = snd (new_Hono \<lparr>opt_strict = None, opt_router = 0, opt_getPath = None\<rparr> sample_store)"

definition sample_request :: Request where
  "sample_request =
     \<lparr>req_method = ''GET'', url_scheme = ''http'', url_host = ''localhost'', url_path = ''/hello'', url_query = []\<rparr>"

definition sample_context :: Context where
  "sample_context = new_Context sample_request ''/hello'' [] None"

definition unauthorized :: Response where
  "unauthorized = \<lparr>status = 401, headers = [], body = Some ''Unauthorized''\<rparr>"

definition hi :: Response where
  "hi = \<lparr>status = 200, headers = [], body = Some ''hi''\<rparr>"

text \<open>The message of an Error, for error handlers that print it.\<close>

fun message :: "Error \<Rightarrow> string" where
  "message (Error m) = m"
| "message (HTTPException m r) = m"

text \<open>
  Two conditions on what a handler does, used to say when the two dispatch paths
  agree. The first: the handler calls \<open>next()\<close> at most once, and not on a context
  that is already finalized (\<open>nf\<close> is the not-found handler that answers the call).
  The second, on the outcome and the context the handler leaves: it failed, or it
  returned a response while the context held none or that very response, or it
  returned nothing and the context is finalized.
\<close>

definition next_at_most_once :: "(Context \<Rightarrow> Response) \<Rightarrow> exec \<Rightarrow> bool" where
  "next_at_most_once nf x =
     (case x of
        Done r c \<Rightarrow> True
      | CallNext c k \<Rightarrow>
          \<not> finalized c \<and> (case k None (set_res c (nf c)) of Done r c' \<Rightarrow> True | CallNext c' k' \<Rightarrow> False))"

definition settled :: "outcome \<times> Context \<Rightarrow> bool" where
  "settled rc =
     (case fst rc of
        Throws err \<Rightarrow> True
      | Rejects err \<Rightarrow> True
      | Returns x \<Rightarrow> c_res (snd rc) = None \<or> c_res (snd rc) = Some x
      | Resolves None \<Rightarrow> finalized (snd rc)
      | Resolves (Some x) \<Rightarrow> c_res (snd rc) = None \<or> c_res (snd rc) = Some x)"

text \<open>Sample handlers: one that resolves with nothing and does nothing, one that throws
  an Error; and a route record around a handler.\<close>

definition noop :: H where
  "noop = H (\<lambda>c. Done (Resolves None) c) None"

definition boom :: H where
  "boom = H (\<lambda>c. Done (Throws (ErrorValue (Error ''boom''))) c) None"

definition sample_route :: "H \<Rightarrow> RouterRoute" where
  "sample_route h = \<lparr>r_path = ''/hello'', r_method = ''GET'', r_handler = h\<rparr>"

text \<open>
  Three more sample handlers: one awaits \<open>next()\<close> and then returns a response, one
  awaits \<open>next()\<close> twice, one assigns a response to the context and then awaits
  \<open>next()\<close>.
\<close>

definition next_then_hi :: H where
  "next_then_hi = H (\<lambda>c. CallNext c (\<lambda>e c'. Done (Resolves (Some hi)) c')) None"

definition next_twice :: H where
  "next_twice =
     H (\<lambda>c. CallNext c (\<lambda>e c'. CallNext c'
          (\<lambda>e' c''. case e' of Some err \<Rightarrow> Done (Rejects err) c'' | None \<Rightarrow> Done (Resolves None) c''))) None"

definition hi_then_next :: H where
  "hi_then_next = H (\<lambda>c. CallNext (set_res c hi) (\<lambda>e c'. Done (Resolves None) c')) None"

text \<open>
  Stores for whole scenarios: an application with a greeting and a failing route; one
  with a foreign handler mounted under \<open>/legacy\<close> and a route registered after it
  at the same place; one with a sub-application that has its own error handler and a
  failing route, grafted under \<open>/api\<close>.
\<close>

definition greet :: H where
  "greet = H (\<lambda>c. Done (Returns hi) c) None"

definition get_request :: "string \<Rightarrow> string \<Rightarrow> Request" where
  "get_request p q = \<lparr>req_method = ''GET'', url_scheme = ''http'', url_host = ''localhost'', url_path = p, url_query = q\<rparr>"

definition hello_store :: store where
  "hello_store =
     snd (verb sample_app ''get'' (PathArg ''/fail'') [HandlerArg boom]
       (snd (verb sample_app ''get'' (PathArg ''/hello'') [HandlerArg greet] sample_store1)))"

definition silent :: "Request \<Rightarrow> jsval list \<Rightarrow> thrown + Response option" where
  "silent request options = Inr None"

definition echo :: "Request \<Rightarrow> jsval list \<Rightarrow> thrown + Response option" where
  "echo request options =
     Inr (Some \<lparr>status = 200, headers = [], body = Some (url_path request @ url_query request)\<rparr>)"

definition legacy_store :: "(Request \<Rightarrow> jsval list \<Rightarrow> thrown + Response option) \<Rightarrow> store" where
  "legacy_store f =
     snd (verb sample_app ''all'' (PathArg ''/legacy/*'') [HandlerArg greet]
       (snd (mount sample_app ''/legacy'' f None sample_store1)))"

definition sub_error :: "Error \<Rightarrow> Context \<Rightarrow> Response" where
  "sub_error err c = c_text c ''sub-application error'' 500"

definition sub_app :: Hono where
  "sub_app = onError (fst (new_Hono \<lparr>opt_strict = None, opt_router = 1, opt_getPath = None\<rparr> sample_store1)) sub_error"

definition grafted_store :: store where
  "grafted_store =
     snd (route sample_app ''/api'' (Some sub_app)
       (snd (verb sub_app ''get'' (PathArg ''/fail'') [HandlerArg boom]
         (snd (new_Hono \<lparr>opt_strict = None, opt_router = 1, opt_getPath = None\<rparr> sample_store1)))))"




definition echo_url :: "Request \<Rightarrow> jsval list \<Rightarrow> thrown + Response option" where
  "echo_url request options =
     Inr (Some \<lparr>status = 200, headers = [],
                 body = Some (url_host request @ url_path request @ url_query request)\<rparr>)"

section \<open>Facts about paths\<close>

lemma lead_slash_nonempty: "lead_slash p \<noteq> []"
  by (auto simp: lead_slash_def split: list.splits)

lemma lead_slash_root: "lead_slash ''/'' = ''/''"
  by (simp add: lead_slash_def)

lemma hd_lead_slash: "hd (lead_slash p) = CHR ''/''"
  by (auto simp: lead_slash_def split: list.splits)

lemma lead_slash_idem: "p \<noteq> [] \<Longrightarrow> hd p = CHR ''/'' \<Longrightarrow> lead_slash p = p"
  by (cases p) (simp_all add: lead_slash_def)

lemma drop_slash_append: "ys \<noteq> [] \<Longrightarrow> drop_slash (xs @ ys) = xs @ drop_slash ys"
  by (simp add: drop_slash_def butlast_append)

lemma lead_slash_cases: "lead_slash p = ''/'' \<or> (\<exists>x xs. lead_slash p = CHR ''/'' # x # xs)"
  by (cases p; cases "tl p") (auto simp: lead_slash_def)

lemma hd_join: "hd (drop_slash (lead_slash a) @ lead_slash b) = CHR ''/''"
  using lead_slash_cases[of a] lead_slash_cases[of b]
  by (auto simp: drop_slash_def)

lemma join_nonempty: "drop_slash (lead_slash a) @ lead_slash b \<noteq> []"
  by (simp add: lead_slash_nonempty)

lemma lead_slash_join: "lead_slash (drop_slash (lead_slash a) @ lead_slash b) = drop_slash (lead_slash a) @ lead_slash b"
  by (rule lead_slash_idem[OF join_nonempty hd_join])

lemma join_not_root: "lead_slash b \<noteq> ''/'' \<Longrightarrow> drop_slash (lead_slash a) @ lead_slash b \<noteq> ''/''"
  using lead_slash_cases[of b] by (auto simp: append_eq_Cons_conv)

lemma lead_slash_lead_slash: "lead_slash (lead_slash p) = lead_slash p"
  by (rule lead_slash_idem[OF lead_slash_nonempty hd_lead_slash])

lemma drop_slash_root: "drop_slash ''/'' = []"
  by (simp add: drop_slash_def)

lemma mergePath_assoc: "mergePath (mergePath a b) c = mergePath a (mergePath b c)"
proof (cases "lead_slash b = ''/''")
  case True
  note b = this
  show ?thesis
  proof (cases "lead_slash c = ''/''")
    case True
    with b show ?thesis by (simp add: mergePath_def lead_slash_lead_slash lead_slash_root)
  next
    case False
    with b show ?thesis
      by (simp add: mergePath_def lead_slash_lead_slash drop_slash_root lead_slash_root)
  qed
next
  case False
  note b = this
  show ?thesis
  proof (cases "lead_slash c = ''/''")
    case True
    with b show ?thesis by (simp add: mergePath_def lead_slash_lead_slash lead_slash_join)
  next
    case False
    with b show ?thesis
      by (simp add: mergePath_def lead_slash_lead_slash lead_slash_join join_not_root
            drop_slash_append lead_slash_nonempty)
  qed
qed

lemma mergePath_examples:
  "mergePath ''/legacy'' ''*'' = ''/legacy/*''
   \<and> mergePath ''/'' ''/api'' = ''/api''
   \<and> mergePath ''/api'' ''/users'' = ''/api/users''
   \<and> mergePath ''/api/'' ''/users'' = ''/api/users''
   \<and> mergePath ''/api/'' ''/'' = ''/api/''
   \<and> mergePath ''/api'' ''users'' = ''/api/users''"
  by (simp add: mergePath_def lead_slash_def drop_slash_def)

section \<open>Facts about dispatch\<close>

lemma handleError_fields:
  "this_errorHandler a = this_errorHandler b \<Longrightarrow> handleError a = handleError b"
  by (rule ext)+ (simp add: handleError_def split: thrown.split)

lemma dispatch_single_fields:
  assumes "this_notFoundHandler a = this_notFoundHandler b" "this_errorHandler a = this_errorHandler b"
  shows "dispatch_single a = dispatch_single b"
  using assms handleError_fields[OF assms(2)]
  by (intro ext) (simp add: dispatch_single_def split: prod.split outcome.split option.split)

lemma dispatch_composed_fields:
  assumes "this_notFoundHandler a = this_notFoundHandler b" "this_errorHandler a = this_errorHandler b"
  shows "dispatch_composed a = dispatch_composed b"
  using assms handleError_fields[OF assms(2)]
  by (intro ext) (simp add: dispatch_composed_def split: prod.split option.split)

lemma dispatch_not_HEAD:
  "method \<noteq> ''HEAD'' \<Longrightarrow>
   dispatch s this request executionCtx env method =
     (let path = call_getPath (this_getPath this) request env;
          matchResult = matchRoute s this method path;
          c = new_Context request path env executionCtx
      in if length matchResult = 1
         then dispatch_single this (fst (fst (matchResult ! 0))) c
         else dispatch_composed this matchResult c)"
  by (simp add: dispatch.simps[of s this request executionCtx env "method"])

lemma dispatch_fields:
  assumes "routers s = routers s'" "this_router a = this_router b" "this_getPath a = this_getPath b"
    "this_notFoundHandler a = this_notFoundHandler b" "this_errorHandler a = this_errorHandler b"
  shows "dispatch s a request executionCtx env method = dispatch s' b request executionCtx env method"
proof -
  have body: "dispatch s a request executionCtx env m = dispatch s' b request executionCtx env m"
    if "m \<noteq> ''HEAD''" for m
    using that assms(1-3) dispatch_single_fields[OF assms(4,5)] dispatch_composed_fields[OF assms(4,5)]
    by (simp add: dispatch_not_HEAD matchRoute_def Let_def)
  show ?thesis
  proof (cases "method = ''HEAD''")
    case True
    have "dispatch s a request executionCtx env ''GET'' = dispatch s' b request executionCtx env ''GET''"
      by (rule body) simp
    with True show ?thesis
      by (simp add: dispatch.simps[of _ _ request executionCtx env "''HEAD''"])
  next
    case False
    then show ?thesis by (rule body)
  qed
qed

section \<open>The path extractor chosen by the constructor\<close>

text \<open>
  C10. With \<open>strict\<close> set to false the constructor installs the non-strict default
  extractor whatever \<open>getPath\<close> the options carry; with \<open>strict\<close> true or left out,
  a supplied \<open>getPath\<close> is installed, and the strict default when none is supplied.
\<close>

theorem constructor_getPath:
  "this_getPath (fst (new_Hono (options\<lparr>opt_strict := Some False\<rparr>) s)) = getPathNoStrict_ref
   \<and> this_getPath (fst (new_Hono (options\<lparr>opt_strict := Some True, opt_getPath := Some g\<rparr>) s)) = g
   \<and> this_getPath (fst (new_Hono (options\<lparr>opt_strict := None, opt_getPath := Some g\<rparr>) s)) = g
   \<and> this_getPath (fst (new_Hono (options\<lparr>opt_strict := Some True, opt_getPath := None\<rparr>) s)) = getPath_ref
   \<and> this_getPath (fst (new_Hono (options\<lparr>opt_strict := None, opt_getPath := None\<rparr>) s)) = getPath_ref
   \<and> call_getPath getPathNoStrict_ref = getPathNoStrict
   \<and> call_getPath getPath_ref = getPath"
  by (simp add: new_Hono_def)

section \<open>Error handling\<close>

text \<open>
  C2, as the code has it. handleError hands every Error, an HTTPException included, to
  the configured error handler and returns what that handler returns; a value that is
  not an Error is thrown on. It is the built-in default error handler that returns an
  HTTPException's own response unchanged and answers any other Error with the
  plain-text 500. On the single-handler path a value that is not an Error, thrown or
  rejected by the handler, leaves dispatch as it is.
\<close>

theorem handleError_cases:
  "handleError this (ErrorValue e) c = Inr (call_errorHandler (this_errorHandler this) e c)
   \<and> handleError this (NonError v) c = Inl (NonError v)
   \<and> call_errorHandler errorHandler_ref = errorHandler
   \<and> errorHandler (HTTPException m r) c = r
   \<and> errorHandler (Error m) c = c_text c ''Internal Server Error'' 500
   \<and> dispatch_single this (H (\<lambda>c. Done (Throws (NonError v)) (f c)) orig) c = Inl (NonError v)
   \<and> dispatch_single this (H (\<lambda>c. Done (Rejects (NonError v)) (f c)) orig) c = Inl (NonError v)"
  by (simp add: handleError_def errorHandler_def dispatch_single_def)

text \<open>
  C2 as stated fails where an error handler was installed with onError: handleError
  gives the HTTPException to that handler, and the exception's own response is not
  what comes back.
\<close>

theorem handleError_HTTPException_counterexample:
  "handleError (onError sample_app (\<lambda>err c. c_text c ''custom'' 500))
     (ErrorValue (HTTPException ''Unauthorized'' unauthorized)) sample_context
   \<noteq> Inr unauthorized"
  by (simp add: handleError_def onError_def c_text_def unauthorized_def)

section \<open>HEAD requests\<close>



section \<open>Derived applications\<close>

text \<open>
  C9. The application basePath() returns has the built-in not-found and error
  handlers whatever the parent installed, while its router and routes array are the
  parent's: a dispatch through it is a dispatch through the parent with both handlers
  reset, so that an Error thrown by the one matched handler is answered with the
  default 500 and a handler that resolves with nothing with the default 404.
\<close>

theorem basePath_resets_handlers:
  "this_notFoundHandler (fst (basePath this path s)) = notFoundHandler_ref
   \<and> this_errorHandler (fst (basePath this path s)) = errorHandler_ref
   \<and> this_router (fst (basePath this path s)) = this_router this
   \<and> this_routes (fst (basePath this path s)) = this_routes this
   \<and> dispatch (snd (basePath this path s)) (fst (basePath this path s)) request executionCtx env method
       = dispatch s (this\<lparr>this_notFoundHandler := notFoundHandler_ref, this_errorHandler := errorHandler_ref\<rparr>)
           request executionCtx env method
   \<and> dispatch_single (fst (basePath (notFound (onError this eh) nf) path s))
        (H (\<lambda>c. Done (Throws (ErrorValue (Error m))) c) None) c
       = Inr (c_text c ''Internal Server Error'' 500)
   \<and> dispatch_single (fst (basePath (notFound (onError this eh) nf) path s))
        (H (\<lambda>c. Done (Resolves None) c) None) (new_Context request p env executionCtx)
       = Inr (c_text (new_Context request p env executionCtx) ''404 Not Found'' 404)"
proof -
  have flds: "this_notFoundHandler (fst (basePath t path s)) = notFoundHandler_ref
      \<and> this_errorHandler (fst (basePath t path s)) = errorHandler_ref
      \<and> this_router (fst (basePath t path s)) = this_router t
      \<and> this_routes (fst (basePath t path s)) = this_routes t
      \<and> this_getPath (fst (basePath t path s)) = this_getPath t
      \<and> routers (snd (basePath t path s)) = routers s" for t
    by (simp add: basePath_def clone_def new_Hono_def)
  have d: "dispatch (snd (basePath this path s)) (fst (basePath this path s)) request executionCtx env method
       = dispatch s (this\<lparr>this_notFoundHandler := notFoundHandler_ref, this_errorHandler := errorHandler_ref\<rparr>)
           request executionCtx env method"
    by (rule dispatch_fields) (simp_all add: flds)
  show ?thesis
    using flds[of this] flds[of "notFound (onError this eh) nf"] d
    by (simp add: dispatch_single_def handleError_def errorHandler_def notFoundHandler_def
          finalized_def new_Context_def)
qed

text \<open>
  C7. Registering \<open>q\<close> on the application derived by \<open>basePath(p)\<close> changes the
  store exactly as registering \<open>mergePath(p, q)\<close> on the original application does:
  the same record (method, full path, handler) is appended to the same array and
  forwarded to the same router.
\<close>

theorem basePath_addRoute:
  "addRoute (fst (basePath this p s)) m q h (snd (basePath this p s))
     = addRoute this m (mergePath p q) h (snd (basePath this p s))
   \<and> this_routes (fst (basePath this p s)) = this_routes this
   \<and> this_router (fst (basePath this p s)) = this_router this
   \<and> arrays (addRoute (fst (basePath this p s)) m q h (snd (basePath this p s))) (this_routes this)
       = arrays (snd (basePath this p s)) (this_routes this) @
           [\<lparr>r_path = mergePath (this_basePath this) (mergePath p q), r_method = toUpperCase m,
             r_handler = h\<rparr>]"
  by (simp add: basePath_def clone_def new_Hono_def addRoute_def mergePath_assoc Let_def)

section \<open>The route table only grows\<close>

lemma grows_refl: "grows s s"
  by (simp add: grows_def)

lemma grows_trans: "grows s s' \<Longrightarrow> grows s' s'' \<Longrightarrow> grows s s''"
  unfolding grows_def by (meson le_trans less_le_trans prefix_order.order_trans)

lemma addRoute_arrays:
  "arrays (addRoute this m p h s) =
     (arrays s)(this_routes this := arrays s (this_routes this) @
        [\<lparr>r_path = mergePath (this_basePath this) p, r_method = toUpperCase m, r_handler = h\<rparr>])"
  by (simp add: addRoute_def Let_def)

lemma addRoute_routers:
  "routers (addRoute this m p h s) =
     (routers s)(this_router this := router_add (routers s (this_router this)) (toUpperCase m)
        (mergePath (this_basePath this) p)
        (h, \<lparr>r_path = mergePath (this_basePath this) p, r_method = toUpperCase m, r_handler = h\<rparr>))"
  by (simp add: addRoute_def Let_def)

lemma addRoute_next_array: "next_array (addRoute this m p h s) = next_array s"
  by (simp add: addRoute_def Let_def)

lemma grows_addRoute: "grows s (addRoute this m p h s)"
  by (simp add: grows_def addRoute_arrays addRoute_next_array)

lemma grows_new_Hono: "grows s (snd (new_Hono options s))"
  by (simp add: grows_def new_Hono_def Let_def)

lemma grows_basePath: "grows s (snd (basePath this p s))"
  using grows_new_Hono[of s "\<lparr>opt_strict = None, opt_router = this_router this,
                     opt_getPath = Some (this_getPath this)\<rparr>"]
  by (auto simp: basePath_def clone_def split: prod.splits)

lemma grows_fold_addRoute:
  "grows s (fold (\<lambda>x st. addRoute (app x) (m x) (p x) (h x) st) xs s)"
proof (induction xs arbitrary: s)
  case Nil
  show ?case by (simp add: grows_refl)
next
  case (Cons x xs)
  show ?case using grows_trans[OF grows_addRoute Cons.IH] by simp
qed

lemma grows_route: "grows s (snd (route this p app s))"
proof (cases app)
  case None
  then show ?thesis using grows_basePath[of s this p] by (simp add: route_def split: prod.split)
next
  case (Some a)
  obtain subApp s' where b: "basePath this p s = (subApp, s')" by (cases "basePath this p s")
  have g: "grows s s'" using grows_basePath[of s this p] b by simp
  have "grows s' (fold (\<lambda>r st. addRoute subApp (r_method r) (r_path r) (route_handler a r) st)
                    (arrays s' (this_routes a)) s')"
    by (rule grows_fold_addRoute)
  with g Some b show ?thesis by (simp add: route_def grows_trans)
qed

lemma grows_mount: "grows s (snd (mount this p f g s))"
  by (simp add: mount_def Let_def grows_addRoute)

lemma grows_verb_rest: "grows (snd st) (snd (verb_rest m a st))"
  by (cases a) (simp_all add: verb_rest_def grows_refl grows_addRoute)

lemma grows_fold_verb_rest: "grows (snd st) (snd (fold (verb_rest m) as st))"
proof (induction as arbitrary: st)
  case Nil
  show ?case by (simp add: grows_refl)
next
  case (Cons a as)
  show ?case using grows_trans[OF grows_verb_rest Cons.IH] by simp
qed

lemma grows_verb: "grows s (snd (verb this m a as s))"
proof (cases a)
  case (PathArg p)
  then show ?thesis using grows_fold_verb_rest[of "(this\<lparr>this_path := p\<rparr>, s)" m as]
    by (simp add: verb_def)
next
  case (HandlerArg h)
  have "grows s (addRoute this m (this_path this) h s)"
    by (rule grows_addRoute)
  moreover have "grows (addRoute this m (this_path this) h s)
      (snd (fold (verb_rest m) as (this, addRoute this m (this_path this) h s)))"
    using grows_fold_verb_rest[of "(this, addRoute this m (this_path this) h s)" m as] by simp
  ultimately show ?thesis using HandlerArg by (simp add: verb_def grows_trans)
qed

lemma grows_on_methods: "grows s (on_methods this ms hs s)"
proof (induction ms arbitrary: s)
  case Nil
  show ?case by (simp add: on_methods_def grows_refl)
next
  case (Cons m ms)
  have "grows s (fold (\<lambda>handler st'. addRoute this (toUpperCase m) (this_path this) handler st') hs s)"
    by (rule grows_fold_addRoute)
  from grows_trans[OF this Cons.IH] show ?case by (simp add: on_methods_def)
qed

lemma grows_on_paths:
  "grows (snd st) (snd (fold (\<lambda>p st. (fst st\<lparr>this_path := p\<rparr>,
       on_methods (fst st\<lparr>this_path := p\<rparr>) ms hs (snd st))) ps st))"
proof (induction ps arbitrary: st)
  case Nil
  show ?case by (simp add: grows_refl)
next
  case (Cons p ps)
  let ?st1 = "(fst st\<lparr>this_path := p\<rparr>, on_methods (fst st\<lparr>this_path := p\<rparr>) ms hs (snd st))"
  have "grows (snd st) (snd ?st1)" by (simp add: grows_on_methods)
  from grows_trans[OF this Cons.IH[of ?st1]] show ?case by simp
qed

lemma grows_on: "grows s (snd (on this m p hs s))"
  using grows_on_paths[of "(this, s)" "flat m" hs "flat p"]
  by (simp add: on_def grows_refl)

lemma grows_use: "grows s (snd (use this a hs s))"
  by (simp add: use_def Let_def grows_fold_addRoute)

lemma grows_perform: "grows s (snd (perform x this s))"
  by (cases x)
    (simp_all add: grows_addRoute grows_route grows_basePath grows_refl grows_mount grows_verb
       grows_on grows_use)

lemma grows_perform_all: "grows s (perform_all xs s)"
proof (induction xs arbitrary: s)
  case Nil
  show ?case by (simp add: grows_refl)
next
  case (Cons x xs)
  obtain this y where x: "x = (this, y)" by (cases x)
  show ?case using grows_trans[OF grows_perform Cons.IH] by (simp add: x)
qed

text \<open>
  C8. addRoute uppercases the method, merges the base path with the path, appends the
  one record made of them and the handler to the end of the application's routes
  array, and adds the method, the full path and the pair of handler and record to the
  router (whose \<open>add\<close> appends). Whatever sequence of operations runs, on whatever
  applications, every array that exists keeps its entries, in their order, as a prefix
  of its later content. The router's \<open>add\<close> is taken to return normally.
\<close>

theorem addRoute_appends:
  "arrays (addRoute this m p h s) =
     (arrays s)(this_routes this := arrays s (this_routes this) @
        [\<lparr>r_path = mergePath (this_basePath this) p, r_method = toUpperCase m, r_handler = h\<rparr>])
   \<and> routers (addRoute this m p h s) =
     (routers s)(this_router this := router_add (routers s (this_router this)) (toUpperCase m)
        (mergePath (this_basePath this) p)
        (h, \<lparr>r_path = mergePath (this_basePath this) p, r_method = toUpperCase m, r_handler = h\<rparr>))
   \<and> router_add r m' p' x = r\<lparr>added := added r @ [(m', p', x)]\<rparr>
   \<and> (\<forall>a<next_array s. prefix (arrays s a) (arrays (perform_all xs s) a))"
  using grows_perform_all[of s xs]
  by (simp add: addRoute_arrays addRoute_routers router_add_def grows_def)

theorem addRoute_appends_witness:
  "0 < next_array sample_store1
   \<and> prefix (arrays sample_store1 0)
        (arrays (perform_all [(sample_app, Verb ''get'' (PathArg ''/hello'') [HandlerArg (H (\<lambda>c. Done (Returns hi) c) None)]),
                              (sample_app, BasePath ''/api''),
                              (sample_app, Use (PathArg ''/x'') [H (\<lambda>c. CallNext c (\<lambda>e c'. Done (Resolves None) c')) None])]
                   sample_store1) 0)
   \<and> map r_path (arrays (perform_all [(sample_app, Verb ''get'' (PathArg ''/hello'') [HandlerArg (H (\<lambda>c. Done (Returns hi) c) None)]),
                              (sample_app, BasePath ''/api''),
                              (sample_app, Use (PathArg ''/x'') [H (\<lambda>c. CallNext c (\<lambda>e c'. Done (Resolves None) c')) None])]
                   sample_store1) 0) = [''/hello'', ''/x'']"
  using addRoute_appends[of sample_app "''get''" "''/hello''" "H (\<lambda>c. Done (Returns hi) c) None" sample_store1
      "\<lparr>added = [], match_of = sample_match\<rparr>" "''GET''" "''/hello''"
      "(H (\<lambda>c. Done (Returns hi) c) None, \<lparr>r_path = ''/hello'', r_method = ''GET'', r_handler = H (\<lambda>c. Done (Returns hi) c) None\<rparr>)"
      "[(sample_app, Verb ''get'' (PathArg ''/hello'') [HandlerArg (H (\<lambda>c. Done (Returns hi) c) None)]),
                              (sample_app, BasePath ''/api''),
                              (sample_app, Use (PathArg ''/x'') [H (\<lambda>c. CallNext c (\<lambda>e c'. Done (Resolves None) c')) None])]"]
  by (simp add: sample_store1_def sample_app_def sample_store_def new_Hono_def verb_def verb_rest_def
        addRoute_def basePath_def clone_def use_def mergePath_def lead_slash_def drop_slash_def
        METHOD_NAME_ALL_def router_add_def Let_def)

section \<open>The unfinalized pipeline\<close>

text \<open>
  C6, as the code has it. On the composed path, when the chain completes and the
  context is not finalized, dispatch throws an Error whose message says that the
  context is not finalized, inside its own try block: the catch hands it to
  handleError, so the configured error handler turns it into the response, as it
  does a handler's own Error. When the context is finalized dispatch returns its
  response.
\<close>

theorem unfinalized_goes_to_errorHandler:
  "dispatch_composed this matchResult c =
     (case compose (map (\<lambda>m. fst (fst m)) matchResult) (call_errorHandler (this_errorHandler this))
             (call_notFoundHandler (this_notFoundHandler this)) c of
        (Some err, context) \<Rightarrow> handleError this err context
      | (None, context) \<Rightarrow>
          if finalized context then Inr (the (c_res context))
          else Inr (call_errorHandler (this_errorHandler this)
                      (Error ''Context is not finalized. You may forget returning Response object or `await next()`'')
                      context))"
  by (simp add: dispatch_composed_def handleError_def not_finalized_message_def
        split: prod.split option.split)

text \<open>
  C6 as stated fails: it has the unfinalized pipeline kept apart from a handler's own
  Error and not converted by the error handler. With an error handler that prints the
  message, two handlers that do nothing get the answer that a handler throwing an
  Error with the same message gets.
\<close>

theorem unfinalized_counterexample:
  "dispatch_composed (onError sample_app (\<lambda>err c. c_text c (message err) 500))
      [((noop, sample_route noop), []), ((noop, sample_route noop), [])] sample_context
     = Inr (c_text sample_context not_finalized_message 500)
   \<and> dispatch_single (onError sample_app (\<lambda>err c. c_text c (message err) 500))
        (H (\<lambda>c. Done (Throws (ErrorValue (Error not_finalized_message))) c) None) sample_context
     = Inr (c_text sample_context not_finalized_message 500)"
  by (simp add: noop_def dispatch_single_def dispatch_composed_def compose_def handleError_def
        sample_app_def new_Hono_def onError_def sample_context_def
        new_Context_def finalized_def c_text_def)

section \<open>The single-handler path and the composed path\<close>

lemma run_chain_last:
  assumes "next_at_most_once nf x"
  shows "\<exists>idx. run_chain (compose_dispatch nf [] 1) x 0 = (fst (run_single nf x), snd (run_single nf x), idx)"
proof (cases x)
  case (Done r c)
  then show ?thesis by simp
next
  case (CallNext c k)
  with assms have nfin: "\<not> finalized c" by (simp add: next_at_most_once_def)
  from CallNext assms obtain r c' where k: "k None (set_res c (nf c)) = Done r c'"
    by (auto simp: next_at_most_once_def split: exec.splits)
  from CallNext nfin k show ?thesis by simp
qed

lemma compose_single:
  assumes "next_at_most_once nf (call h c)"
  shows "compose [h] eh nf c =
     (case run_single nf (call h c) of
        (Throws (ErrorValue err), c') \<Rightarrow> (None, set_res c' (eh err c'))
      | (Throws (NonError v), c') \<Rightarrow> (Some (NonError v), c')
      | (Rejects (ErrorValue err), c') \<Rightarrow> (None, set_res c' (eh err c'))
      | (Rejects (NonError v), c') \<Rightarrow> (Some (NonError v), c')
      | (Returns r, c') \<Rightarrow> (None, keep_or_set c' r)
      | (Resolves None, c') \<Rightarrow> (None, c')
      | (Resolves (Some r), c') \<Rightarrow> (None, keep_or_set c' r))"
proof -
  from run_chain_last[OF assms] obtain idx where
    "run_chain (compose_dispatch nf [] 1) (call h c) 0 =
       (fst (run_single nf (call h c)), snd (run_single nf (call h c)), idx)" by blast
  then show ?thesis
    by (cases "run_single nf (call h c)")
      (simp add: compose_def split: outcome.split thrown.split option.split)
qed

text \<open>
  C1, as the code has it. Take a match result of exactly one handler that calls
  \<open>next()\<close> at most once and not on a finalized context. When the handler fails,
  both paths return what handleError makes of the thrown value: the error handler's
  response for an Error, the value itself thrown on otherwise. When it returns a
  response, the single-handler path returns that response and the composed path the
  response of the context, which is the same unless the context was finalized with
  another one. When it returns nothing, both return the response of a finalized
  context; for a context that is not finalized the single-handler path returns the
  not-found handler's response and the composed path the error handler's response to
  the not-finalized Error. So the two paths agree whenever the handler fails, returns
  a response while the context holds none or that response, or returns nothing with
  the context finalized.
\<close>

theorem single_handler_paths_agree:
  assumes "next_at_most_once (call_notFoundHandler (this_notFoundHandler this)) (call h c)"
  shows "(case run_single (call_notFoundHandler (this_notFoundHandler this)) (call h c) of
         (Throws err, c') \<Rightarrow>
            dispatch_single this h c = handleError this err c'
            \<and> dispatch_composed this [((h, rt), ps)] c = handleError this err c'
       | (Rejects err, c') \<Rightarrow>
            dispatch_single this h c = handleError this err c'
            \<and> dispatch_composed this [((h, rt), ps)] c = handleError this err c'
       | (Returns x, c') \<Rightarrow>
            dispatch_single this h c = Inr x
            \<and> dispatch_composed this [((h, rt), ps)] c
                = Inr (if finalized c' then the (c_res c') else x)
       | (Resolves (Some x), c') \<Rightarrow>
            dispatch_single this h c = Inr x
            \<and> dispatch_composed this [((h, rt), ps)] c
                = Inr (if finalized c' then the (c_res c') else x)
       | (Resolves None, c') \<Rightarrow>
            dispatch_single this h c
              = Inr (if finalized c' then the (c_res c')
                     else call_notFoundHandler (this_notFoundHandler this) c')
            \<and> dispatch_composed this [((h, rt), ps)] c
                = Inr (if finalized c' then the (c_res c')
                       else call_errorHandler (this_errorHandler this) (Error not_finalized_message) c'))
    \<and> (settled (run_single (call_notFoundHandler (this_notFoundHandler this)) (call h c))
         \<longrightarrow> dispatch_composed this [((h, rt), ps)] c = dispatch_single this h c)"
proof -
  obtain r c' where rc: "run_single (call_notFoundHandler (this_notFoundHandler this)) (call h c) = (r, c')"
    by (cases "run_single (call_notFoundHandler (this_notFoundHandler this)) (call h c)")
  from rc show ?thesis
    by (auto simp: dispatch_composed_def dispatch_single_def compose_single[OF assms] settled_def
          handleError_def finalized_def set_res_def keep_or_set_def
          split: outcome.splits thrown.splits option.splits)
qed

theorem single_handler_paths_agree_witness:
  "next_at_most_once (call_notFoundHandler (this_notFoundHandler sample_app)) (call boom sample_context)
   \<and> settled (run_single (call_notFoundHandler (this_notFoundHandler sample_app)) (call boom sample_context))
   \<and> dispatch_composed sample_app [((boom, sample_route boom), [])] sample_context
       = dispatch_single sample_app boom sample_context
   \<and> dispatch_single sample_app boom sample_context
       = Inr (c_text sample_context ''Internal Server Error'' 500)
   \<and> dispatch_composed sample_app [((greet, sample_route greet), [])] sample_context = Inr hi"
  using single_handler_paths_agree[of sample_app boom sample_context "sample_route boom" "[]"]
    single_handler_paths_agree[of sample_app greet sample_context "sample_route greet" "[]"]
  by (simp add: next_at_most_once_def settled_def boom_def greet_def dispatch_single_def handleError_def
        sample_app_def new_Hono_def errorHandler_def sample_context_def new_Context_def finalized_def)

text \<open>
  C1 as stated fails for a handler that succeeds without a response: the one that
  resolves with nothing and leaves the context unfinalized is answered with the
  not-found response on the single-handler path, and with the error handler's
  response to the not-finalized Error on the composed path.
\<close>

theorem single_handler_paths_counterexample:
  "dispatch_single sample_app noop sample_context = Inr (c_text sample_context ''404 Not Found'' 404)
   \<and> dispatch_composed sample_app [((noop, sample_route noop), [])] sample_context
       = Inr (c_text sample_context ''Internal Server Error'' 500)
   \<and> dispatch_single sample_app noop sample_context
       \<noteq> dispatch_composed sample_app [((noop, sample_route noop), [])] sample_context"
  by (simp add: noop_def dispatch_single_def dispatch_composed_def compose_def handleError_def
        sample_app_def new_Hono_def errorHandler_def notFoundHandler_def sample_context_def
        new_Context_def finalized_def c_text_def)

text \<open>
  The conditions of the agreement are needed. A handler that awaits \<open>next()\<close> and
  then returns a response has that response returned on the single-handler path,
  while on the composed path \<open>next()\<close> has filled the context with the not-found
  response, which stays. A handler that awaits \<open>next()\<close> twice meets the engine's
  guard on the composed path only. A handler that assigns a response and then awaits
  \<open>next()\<close> has it overwritten by the single-handler path's \<open>next\<close>, which the
  engine's \<open>next\<close> does not do to a finalized context.
\<close>

lemma paths_differ_next_then_return:
  "dispatch_single sample_app next_then_hi sample_context = Inr hi
   \<and> dispatch_composed sample_app [((next_then_hi, sample_route next_then_hi), [])] sample_context
       = Inr (c_text sample_context ''404 Not Found'' 404)"
  by (simp add: next_then_hi_def dispatch_single_def dispatch_composed_def compose_def handleError_def
        sample_app_def new_Hono_def errorHandler_def notFoundHandler_def sample_context_def
        new_Context_def finalized_def c_text_def set_res_def keep_or_set_def hi_def)

lemma paths_differ_next_twice:
  "dispatch_single sample_app next_twice sample_context = Inr (c_text sample_context ''404 Not Found'' 404)
   \<and> dispatch_composed sample_app [((next_twice, sample_route next_twice), [])] sample_context
       = Inr (c_text sample_context ''Internal Server Error'' 500)"
  by (simp add: next_twice_def dispatch_single_def dispatch_composed_def compose_def handleError_def
        sample_app_def new_Hono_def errorHandler_def notFoundHandler_def sample_context_def
        new_Context_def finalized_def c_text_def set_res_def keep_or_set_def hi_def)

lemma paths_differ_finalized_then_next:
  "dispatch_single sample_app hi_then_next sample_context = Inr (c_text sample_context ''404 Not Found'' 404)
   \<and> dispatch_composed sample_app [((hi_then_next, sample_route hi_then_next), [])] sample_context
       = Inr hi"
  by (simp add: hi_then_next_def dispatch_single_def dispatch_composed_def compose_def handleError_def
        sample_app_def new_Hono_def errorHandler_def notFoundHandler_def sample_context_def
        new_Context_def finalized_def c_text_def set_res_def keep_or_set_def hi_def)

section \<open>Mounting a foreign handler\<close>

lemma toUpperCase_ALL: "toUpperCase METHOD_NAME_ALL = ''ALL''"
  by (simp add: toUpperCase_def METHOD_NAME_ALL_def upper_char_def)

lemma split_reference:
  assumes "CHR ''?'' \<notin> set p" "q = [] \<or> hd q = CHR ''?''"
  shows "takeWhile (\<lambda>ch. ch \<noteq> CHR ''?'') (p @ q) = p"
    and "dropWhile (\<lambda>ch. ch \<noteq> CHR ''?'') (p @ q) = q"
proof -
  from assms(2) have tq: "takeWhile (\<lambda>ch. ch \<noteq> CHR ''?'') q = []"
    and dq: "dropWhile (\<lambda>ch. ch \<noteq> CHR ''?'') q = q" by (cases q; auto)+
  from assms(1) show "takeWhile (\<lambda>ch. ch \<noteq> CHR ''?'') (p @ q) = p"
    by (induction p) (auto simp: tq)
  from assms(1) show "dropWhile (\<lambda>ch. ch \<noteq> CHR ''?'') (p @ q) = q"
    by (induction p) (auto simp: dq)
qed

lemma new_URL_absolute_path:
  assumes "p = ''/'' \<or> (\<exists>x r. p = CHR ''/'' # x # r \<and> x \<noteq> CHR ''/'')"
    and "CHR ''?'' \<notin> set p" "q = [] \<or> hd q = CHR ''?''"
  shows "new_URL (p @ q) base = base\<lparr>url_path := p, url_query := q\<rparr>"
  using assms(1) split_reference[OF assms(2,3)]
  by (auto simp: new_URL_def Let_def)

text \<open>
  What mount() registers: it returns the application, appends one route for all
  methods whose path is the base path merged with \<open>mergePath(path, '*')\<close>, and adds
  the same handler and record to the router. The handler works with the length of the
  merged prefix, zero when the merged prefix is the bare slash.
\<close>

lemma mount_registers:
  "fst (mount this path f g s) = this
   \<and> arrays (snd (mount this path f g s)) =
       (arrays s)(this_routes this := arrays s (this_routes this) @
          [\<lparr>r_path = mergePath (this_basePath this) (mergePath path ''*''),
            r_method = ''ALL'',
            r_handler = H (mount_handler
                             (if mergePath (this_basePath this) path = ''/'' then 0
                              else length (mergePath (this_basePath this) path)) f g) None\<rparr>])
   \<and> added (routers (snd (mount this path f g s)) (this_router this)) =
       added (routers s (this_router this)) @
         [(''ALL'', mergePath (this_basePath this) (mergePath path ''*''),
           H (mount_handler
                (if mergePath (this_basePath this) path = ''/'' then 0
                 else length (mergePath (this_basePath this) path)) f g) None,
           \<lparr>r_path = mergePath (this_basePath this) (mergePath path ''*''),
            r_method = ''ALL'',
            r_handler = H (mount_handler
                             (if mergePath (this_basePath this) path = ''/'' then 0
                              else length (mergePath (this_basePath this) path)) f g) None\<rparr>)]"
  by (simp add: mount_def Let_def addRoute_arrays addRoute_routers toUpperCase_ALL router_add_def)

text \<open>
  What the mount handler does where the remainder of the request path after the
  prefix is empty or starts with exactly one slash: the foreign handler is called with
  the request whose path is the remainder (the slash when it is empty) and whose
  query string is the original one, and with the environment and the execution
  context; a foreign failure rejects, a response is the handler's response, and no
  result makes the handler call \<open>next()\<close> and pass on what comes back.
\<close>

lemma mount_handler_delegates:
  assumes "rest = [] \<or> rest = ''/'' \<or> (\<exists>x r. rest = CHR ''/'' # x # r \<and> x \<noteq> CHR ''/'')"
    and "CHR ''?'' \<notin> set rest"
    and "url_query (c_req_raw c) = [] \<or> hd (url_query (c_req_raw c)) = CHR ''?''"
  shows "mount_handler (length pre) f None (c\<lparr>c_req_path := pre @ rest\<rparr>) =
       (case f ((c_req_raw c)\<lparr>url_path := (if rest = [] then ''/'' else rest),
                                url_query := url_query (c_req_raw c)\<rparr>)
               [EnvValue (c_env c),
                case c_executionCtx c of None \<Rightarrow> Undefined | Some e \<Rightarrow> ExecutionContextValue e] of
          Inl err \<Rightarrow> Done (Rejects err) (c\<lparr>c_req_path := pre @ rest\<rparr>)
        | Inr None \<Rightarrow>
            CallNext (c\<lparr>c_req_path := pre @ rest\<rparr>)
              (\<lambda>e c'. case e of Some err \<Rightarrow> Done (Rejects err) c' | None \<Rightarrow> Done (Resolves None) c')
        | Inr (Some res) \<Rightarrow> Done (Resolves (Some res)) (c\<lparr>c_req_path := pre @ rest\<rparr>))"
proof (cases "rest = []")
  case True
  have "new_URL (''/'' @ url_query (c_req_raw c)) (c_req_raw c)
      = (c_req_raw c)\<lparr>url_path := ''/'', url_query := url_query (c_req_raw c)\<rparr>"
    by (rule new_URL_absolute_path[OF _ _ assms(3)]) simp_all
  with True show ?thesis
    by (simp add: mount_handler_def Let_def getQueryStrings_def split: sum.split option.split)
next
  case False
  with assms(1) have shape: "rest = ''/'' \<or> (\<exists>x r. rest = CHR ''/'' # x # r \<and> x \<noteq> CHR ''/'')"
    by simp
  have "new_URL (rest @ url_query (c_req_raw c)) (c_req_raw c)
      = (c_req_raw c)\<lparr>url_path := rest, url_query := url_query (c_req_raw c)\<rparr>"
    by (rule new_URL_absolute_path[OF shape assms(2,3)])
  with False show ?thesis
    by (simp add: mount_handler_def Let_def getQueryStrings_def split: sum.split option.split)
qed

text \<open>
  C5 fails on the code where the remainder does not start with exactly one slash,
  because the rebuilt URL is a reference resolved against the original URL. With a
  mount prefix that ends in a slash the remainder \<open>x\<close> is a relative reference,
  and the foreign handler is given the whole original path, prefix included. With a
  request path that goes on with a second slash after the prefix, the remainder names
  a host, and the foreign handler is given a request for that host. The claim has the
  foreign handler given the path with the prefix stripped, on the original URL.
\<close>

theorem mount_unstripped:
  "fetch (snd (mount sample_app ''/legacy/'' echo_url None sample_store1)) sample_app
      (get_request ''/legacy/x'' ''?y=1'') [] None
     = Inr \<lparr>status = 200, headers = [], body = Some ''localhost/legacy/x?y=1''\<rparr>
   \<and> fetch (snd (mount sample_app ''/legacy'' echo_url None sample_store1)) sample_app
      (get_request ''/legacy//other.example/x'' []) [] None
     = Inr \<lparr>status = 200, headers = [], body = Some ''other.example/x''\<rparr>"
  by (simp add: fetch_def dispatch.simps mount_def mount_handler_def echo_url_def new_URL_def
        base_directory_def getQueryStrings_def sample_store1_def sample_store_def sample_app_def
        new_Hono_def addRoute_def Let_def router_add_def toUpperCase_def upper_char_def
        mergePath_def lead_slash_def drop_slash_def get_request_def getPath_def matchRoute_def
        router_match_def sample_match_def wildcard_match_def METHOD_NAME_ALL_def new_Context_def
        dispatch_single_def)

section \<open>Grafting a sub-application\<close>

lemma run_single_compose_around:
  "run_single nf (compose_around eh x) = (case run_single nf x of (r, c') \<Rightarrow> intercept eh r c')"
proof (induction x)
  case (Done r c)
  show ?case by (simp split: prod.split)
next
  case (CallNext c k)
  have "run_single nf (compose_around eh (k None (set_res c (nf c)))) =
     (case run_single nf (k None (set_res c (nf c))) of (r, c') \<Rightarrow> intercept eh r c')"
    by (rule CallNext.IH[of "k None" "k None (set_res c (nf c))"]) (rule rangeI)+
  then show ?case by simp
qed

lemma run_chain_compose_around:
  "run_chain nxt (compose_around eh x) idx =
     (case run_chain nxt x idx of
        (r, c', idx') \<Rightarrow> (fst (intercept eh r c'), snd (intercept eh r c'), idx'))"
proof (induction x arbitrary: idx)
  case (Done r c)
  show ?case by (simp split: prod.split)
next
  case (CallNext c k)
  obtain e c1 i1 where n: "nxt c idx = (e, c1, i1)" by (cases "nxt c idx")
  have "run_chain nxt (compose_around eh (k e c1)) i1 =
     (case run_chain nxt (k e c1) i1 of
        (r, c', idx') \<Rightarrow> (fst (intercept eh r c'), snd (intercept eh r c'), idx'))"
    by (rule CallNext.IH[of "k e" "k e c1"]) (rule rangeI)+
  with n show ?case by simp
qed

lemma fold_addRoute_arrays:
  "arrays (fold (\<lambda>r st. addRoute sub (m r) (p r) (h r) st) xs s) =
     (arrays s)(this_routes sub := arrays s (this_routes sub) @
        map (\<lambda>r. \<lparr>r_path = mergePath (this_basePath sub) (p r), r_method = toUpperCase (m r),
                   r_handler = h r\<rparr>) xs)"
proof (induction xs arbitrary: s)
  case Nil
  show ?case by simp
next
  case (Cons x xs)
  show ?case by (auto simp: Cons.IH addRoute_arrays fun_eq_iff)
qed

text \<open>
  C4. route() appends to the parent's array one record for each route of the
  sub-application, under the merged base path. With the built-in error handler the
  handler is the route's own. With an installed error handler it is a wrapper that
  carries the original handler as its \<open>COMPOSED_HANDLER\<close> and runs it inside the
  composition engine: when the original handler ends in an Error, the wrapper
  resolves with the response of the sub-application's error handler, and that is
  what the parent's dispatch returns. The model reads \<open>app.errorHandler\<close> when
  route() runs; the wrapper of the source reads the field when it is called, the
  same function unless onError() is called on the sub-application again later.
\<close>

theorem route_wraps_handlers:
  "route_handler (app\<lparr>this_errorHandler := errorHandler_ref\<rparr>) r = r_handler r
   \<and> COMPOSED_HANDLER (route_handler (onError app eh) r) = Some (r_handler r)
   \<and> call (route_handler (onError app eh) r) c = compose_around eh (call (r_handler r) c)
   \<and> (run_single (call_notFoundHandler (this_notFoundHandler this)) (call (r_handler r) c) = (Throws (ErrorValue e), c')
        \<or> run_single (call_notFoundHandler (this_notFoundHandler this)) (call (r_handler r) c) = (Rejects (ErrorValue e), c')
       \<longrightarrow> run_single (call_notFoundHandler (this_notFoundHandler this)) (call (route_handler (onError app eh) r) c)
             = (Resolves (Some (eh e c')), set_res c' (eh e c'))
           \<and> dispatch_single this (route_handler (onError app eh) r) c = Inr (eh e c'))
   \<and> (run_chain nxt (call (r_handler r) c) idx = (Throws (ErrorValue e), c', idx')
        \<or> run_chain nxt (call (r_handler r) c) idx = (Rejects (ErrorValue e), c', idx')
       \<longrightarrow> run_chain nxt (call (route_handler (onError app eh) r) c) idx
             = (Resolves (Some (eh e c')), set_res c' (eh e c'), idx'))
   \<and> arrays (snd (route this path (Some a) s)) (this_routes this) =
       arrays (snd (basePath this path s)) (this_routes this) @
       map (\<lambda>r. \<lparr>r_path = mergePath (mergePath (this_basePath this) path) (r_path r),
                  r_method = toUpperCase (r_method r),
                  r_handler = route_handler a r\<rparr>)
         (arrays (snd (basePath this path s)) (this_routes a))"
proof -
  have flds: "this_routes (fst (basePath this path s)) = this_routes this
      \<and> this_basePath (fst (basePath this path s)) = mergePath (this_basePath this) path"
    by (simp add: basePath_def clone_def new_Hono_def)
  have tbl: "arrays (snd (route this path (Some a) s)) (this_routes this) =
       arrays (snd (basePath this path s)) (this_routes this) @
       map (\<lambda>r. \<lparr>r_path = mergePath (mergePath (this_basePath this) path) (r_path r),
                  r_method = toUpperCase (r_method r),
                  r_handler = route_handler a r\<rparr>)
         (arrays (snd (basePath this path s)) (this_routes a))"
  proof -
    obtain subApp s' where b: "basePath this path s = (subApp, s')"
      by (cases "basePath this path s")
    with flds have "this_routes subApp = this_routes this"
      "this_basePath subApp = mergePath (this_basePath this) path" by simp_all
    with b show ?thesis by (simp add: route_def fold_addRoute_arrays)
  qed
  show ?thesis
    using tbl
    by (auto simp: route_handler_def onError_def run_single_compose_around run_chain_compose_around
          dispatch_single_def intercept_def)
qed

theorem route_wraps_handlers_witness:
  "run_single (call_notFoundHandler (this_notFoundHandler sample_app)) (call (r_handler (sample_route boom)) sample_context)
     = (Throws (ErrorValue (Error ''boom'')), sample_context)
   \<and> dispatch_single sample_app
        (route_handler (onError sample_app (\<lambda>err c. c_text c ''sub-application error'' 500)) (sample_route boom))
        sample_context
     = Inr (c_text sample_context ''sub-application error'' 500)"
  using route_wraps_handlers[of sample_app "sample_route boom" "\<lambda>err c. c_text c ''sub-application error'' 500"
      sample_context sample_app "Error ''boom''" sample_context "\<lambda>c i. (None, c, i)" 0 0
      "''/api''" sample_app sample_store1]
  by (simp add: sample_route_def boom_def)

section \<open>Scenarios\<close>

text \<open>
  Whole requests through fetch, on the sample router: a registered route answers, a
  path with no route gets the default 404, a handler that throws an Error gets the
  default 500, and HEAD gets the GET answer without its body.
\<close>

lemmas scenario_defs = hello_store_def sample_store1_def sample_store_def sample_app_def verb_def verb_rest_def new_Hono_def
  addRoute_def Let_def router_add_def toUpperCase_def upper_char_def mergePath_def lead_slash_def drop_slash_def
  fetch_def get_request_def dispatch.simps getPath_def matchRoute_def router_match_def sample_match_def
  wildcard_match_def METHOD_NAME_ALL_def new_Context_def dispatch_single_def dispatch_composed_def
  compose_def handleError_def greet_def hi_def finalized_def set_res_def keep_or_set_def
  notFoundHandler_def errorHandler_def c_text_def new_Response_null_def boom_def
  legacy_store_def mount_def mount_handler_def silent_def echo_def new_URL_def base_directory_def
  getQueryStrings_def
  grafted_store_def sub_app_def sub_error_def route_def route_handler_def basePath_def clone_def onError_def
  intercept_def

lemma scenario_hello:
  "fetch hello_store sample_app (get_request ''/hello'' []) [] None = Inr hi"
  by (simp add: scenario_defs)

lemma scenario_missing:
  "fetch hello_store sample_app (get_request ''/missing'' []) [] None
     = Inr \<lparr>status = 404, headers = [(''content-type'', ''text/plain; charset=UTF-8'')],
            body = Some ''404 Not Found''\<rparr>"
  by (simp add: scenario_defs)

lemma scenario_fail:
  "fetch hello_store sample_app (get_request ''/fail'' []) [] None
     = Inr \<lparr>status = 500, headers = [(''content-type'', ''text/plain; charset=UTF-8'')],
            body = Some ''Internal Server Error''\<rparr>"
  by (simp add: scenario_defs)

lemma scenario_head:
  "fetch hello_store sample_app ((get_request ''/hello'' [])\<lparr>req_method := ''HEAD''\<rparr>) [] None
     = Inr \<lparr>status = 200, headers = [], body = None\<rparr>"
  by (simp add: scenario_defs)

text \<open>
  A mounted foreign handler that gives no result lets the route registered after it
  run; one that answers sees the path without the mount prefix, the slash for the
  prefix itself, and the query string.
\<close>

lemma scenario_mount_fallthrough:
  "fetch (legacy_store silent) sample_app (get_request ''/legacy/x'' ''?y=1'') [] None = Inr hi"
  by (simp add: scenario_defs)

lemma scenario_mount_delegates:
  "fetch (legacy_store echo) sample_app (get_request ''/legacy/x'' ''?y=1'') [] None
     = Inr \<lparr>status = 200, headers = [], body = Some ''/x?y=1''\<rparr>
   \<and> fetch (legacy_store echo) sample_app (get_request ''/legacy'' []) [] None
     = Inr \<lparr>status = 200, headers = [], body = Some ''/''\<rparr>"
  by (simp add: scenario_defs)

text \<open>
  A failing route of a grafted sub-application is answered by the sub-application's
  error handler, and the graft adds to the parent's array only.
\<close>

lemma scenario_grafted_error:
  "fetch grafted_store sample_app (get_request ''/api/fail'' []) [] None
     = Inr \<lparr>status = 500, headers = [(''content-type'', ''text/plain; charset=UTF-8'')],
            body = Some ''sub-application error''\<rparr>
   \<and> map r_path (arrays grafted_store (this_routes sample_app)) = [''/api/fail'']
   \<and> map r_path (arrays grafted_store (this_routes sub_app)) = [''/fail'']"
  by (simp add: scenario_defs)

end
